theory Spec2Isabelle
  imports Main "HOL-Library.Multiset"
begin

section \<open>Python values used by the scripts\<close>

text \<open>
  The scripts are Python 3. A Python \<open>str\<close> is modelled as a \<open>string\<close>; a \<open>char\<close> stands
  for a code point below 256. Exceptions are values of \<open>exn\<close>; a function that may raise
  returns \<open>exn + 'a\<close> with \<open>Inl\<close> for the raised exception. \<open>SystemExit n\<close> is what
  \<open>sys.exit(n)\<close> raises. \<open>CalledProcessError\<close> carries the return code and the captured
  standard error, when there is one. Captured bytes are \<open>Utf8 s\<close> when they decode to \<open>s\<close>
  and \<open>NotUtf8\<close> when \<open>bytes.decode()\<close> raises on them.
\<close>

datatype captured = Utf8 string | NotUtf8

datatype exn =
    IndexError
  | OSError
  | KeyError
  | UnicodeDecodeError
  | CalledProcessError int "captured option"
  | SystemExit int

text \<open>\<open>dict.get(key, default)\<close> on an entry that may be absent.\<close>

definition get_default :: "'a option \<Rightarrow> 'a \<Rightarrow> 'a" where
  "get_default entry d = (case entry of None \<Rightarrow> d | Some v \<Rightarrow> v)"

text \<open>\<open>s.replace(c, '')\<close> for a one-character \<open>c\<close>.\<close>

definition remove_char :: "char \<Rightarrow> string \<Rightarrow> string" where
  "remove_char c s = filter (\<lambda>x. x \<noteq> c) s"

definition ascii_lowercase :: string where
  "ascii_lowercase = ''abcdefghijklmnopqrstuvwxyz''"

definition ascii_uppercase :: string where
  "ascii_uppercase = ''ABCDEFGHIJKLMNOPQRSTUVWXYZ''"

definition digits :: string where
  "digits = ''0123456789''"

section \<open>Randomness\<close>

text \<open>
  The operating system's entropy is an infinite tape of naturals. \<open>secrets.choice(seq)\<close>
  raises \<open>IndexError\<close> on an empty sequence and otherwise returns \<open>seq[randbelow(len(seq))]\<close>;
  \<open>randbelow n\<close> reads one cell of the tape and reduces it below \<open>n\<close>.
\<close>

type_synonym rng = "nat \<Rightarrow> nat"

definition advance :: "rng \<Rightarrow> rng" where
  "advance r = (\<lambda>i. r (Suc i))"

definition randbelow :: "nat \<Rightarrow> rng \<Rightarrow> nat \<times> rng" where
  "randbelow n r = (r 0 mod n, advance r)"

definition choice :: "'a list \<Rightarrow> rng \<Rightarrow> exn + ('a \<times> rng)" where
  "choice seq r =
     (if seq = [] then Inl IndexError
      else (case randbelow (length seq) r of (j, r') \<Rightarrow> Inr (seq ! j, r')))"

text \<open>
  \<open>random.shuffle(x)\<close>:
  \<^verbatim>\<open>for i in reversed(range(1, len(x))): j = randbelow(i + 1); x[i], x[j] = x[j], x[i]\<close>
\<close>

fun shuffle_loop :: "nat \<Rightarrow> 'a list \<Rightarrow> rng \<Rightarrow> 'a list \<times> rng" where
  "shuffle_loop 0 x r = (x, r)"
| "shuffle_loop (Suc i) x r =
     (case randbelow (Suc i + 1) r of
        (j, r') \<Rightarrow> shuffle_loop i (x[Suc i := x ! j, j := x ! Suc i]) r')"

definition shuffle :: "'a list \<Rightarrow> rng \<Rightarrow> 'a list \<times> rng" where
  "shuffle x r = shuffle_loop (length x - 1) x r"

section \<open>PasswordGenerator (ftp/ftp\_users.py)\<close>

text \<open>
  The \<open>password_policy\<close> section of the configuration: every key may be absent. A present
  key holds a value of the JSON type the code expects.
\<close>

record password_policy =
  key_length :: "int option"
  key_include_uppercase :: "bool option"
  key_include_lowercase :: "bool option"
  key_include_digits :: "bool option"
  key_include_special :: "bool option"
  key_special_chars :: "string option"
  key_exclude_ambiguous :: "bool option"
  key_min_lowercase :: "int option"
  key_min_uppercase :: "int option"
  key_min_digits :: "int option"
  key_min_special :: "int option"

definition empty_policy :: password_policy where
  "empty_policy =
     \<lparr>key_length = None, key_include_uppercase = None, key_include_lowercase = None,
      key_include_digits = None, key_include_special = None, key_special_chars = None,
      key_exclude_ambiguous = None, key_min_lowercase = None, key_min_uppercase = None,
      key_min_digits = None, key_min_special = None\<rparr>"

record PasswordGenerator =
  policy :: password_policy
  length_pg :: int
  include_uppercase :: bool
  include_lowercase :: bool
  include_digits :: bool
  include_special :: bool
  special_chars :: string
  exclude_ambiguous :: bool

definition PasswordGenerator_init :: "password_policy \<Rightarrow> PasswordGenerator" where
  "PasswordGenerator_init p =
     \<lparr>policy = p,
      length_pg = get_default (key_length p) 16,
      include_uppercase = get_default (key_include_uppercase p) True,
      include_lowercase = get_default (key_include_lowercase p) True,
      include_digits = get_default (key_include_digits p) True,
      include_special = get_default (key_include_special p) True,
      special_chars = get_default (key_special_chars p) ''!@#$%^&*-_=+'',
      exclude_ambiguous = get_default (key_exclude_ambiguous p) True\<rparr>"

text \<open>
  \<^verbatim>\<open>for _ in range(n): password_chars.append(secrets.choice(pool))\<close>;
  \<open>range(n)\<close> is empty for \<open>n \<le> 0\<close>.
\<close>

fun append_choices :: "nat \<Rightarrow> char list \<Rightarrow> char list \<Rightarrow> rng \<Rightarrow> exn + (char list \<times> rng)" where
  "append_choices 0 pool password_chars r = Inr (password_chars, r)"
| "append_choices (Suc n) pool password_chars r =
     (case choice pool r of
        Inl e \<Rightarrow> Inl e
      | Inr (c, r') \<Rightarrow> append_choices n pool (password_chars @ [c]) r')"

definition lowercase_pool :: "PasswordGenerator \<Rightarrow> string" where
  "lowercase_pool self =
     (if exclude_ambiguous self
      then remove_char (CHR ''o'') (remove_char (CHR ''l'') ascii_lowercase)
      else ascii_lowercase)"

definition uppercase_pool :: "PasswordGenerator \<Rightarrow> string" where
  "uppercase_pool self =
     (if exclude_ambiguous self
      then remove_char (CHR ''O'') (remove_char (CHR ''I'') ascii_uppercase)
      else ascii_uppercase)"

definition digits_pool :: "PasswordGenerator \<Rightarrow> string" where
  "digits_pool self =
     (if exclude_ambiguous self
      then remove_char (CHR ''1'') (remove_char (CHR ''0'') digits)
      else digits)"

definition min_lowercase :: "PasswordGenerator \<Rightarrow> int" where
  "min_lowercase self = get_default (key_min_lowercase (policy self)) 2"

definition min_uppercase :: "PasswordGenerator \<Rightarrow> int" where
  "min_uppercase self = get_default (key_min_uppercase (policy self)) 2"

definition min_digits :: "PasswordGenerator \<Rightarrow> int" where
  "min_digits self = get_default (key_min_digits (policy self)) 2"

definition min_special :: "PasswordGenerator \<Rightarrow> int" where
  "min_special self = get_default (key_min_special (policy self)) 2"

text \<open>
  One \<open>if self.include_...\<close> block of \<open>generate\<close>: extend the character set and append the
  class's minimum number of characters. A disabled class leaves both unchanged.
\<close>

definition class_block ::
  "bool \<Rightarrow> string \<Rightarrow> int \<Rightarrow> string \<times> char list \<times> rng \<Rightarrow> exn + (string \<times> char list \<times> rng)" where
  "class_block enabled pool minimum st =
     (case st of (charset, password_chars, r) \<Rightarrow>
        if enabled then
          (case append_choices (nat minimum) pool password_chars r of
             Inl e \<Rightarrow> Inl e
           | Inr (password_chars', r') \<Rightarrow> Inr (charset @ pool, password_chars', r'))
        else Inr st)"

definition generate :: "PasswordGenerator \<Rightarrow> rng \<Rightarrow> exn + (string \<times> rng)" where
  "generate self r =
     (case class_block (include_lowercase self) (lowercase_pool self) (min_lowercase self)
             ('''', [], r) of
        Inl e \<Rightarrow> Inl e
      | Inr st1 \<Rightarrow>
     (case class_block (include_uppercase self) (uppercase_pool self) (min_uppercase self) st1 of
        Inl e \<Rightarrow> Inl e
      | Inr st2 \<Rightarrow>
     (case class_block (include_digits self) (digits_pool self) (min_digits self) st2 of
        Inl e \<Rightarrow> Inl e
      | Inr st3 \<Rightarrow>
     (case class_block (include_special self) (special_chars self) (min_special self) st3 of
        Inl e \<Rightarrow> Inl e
      | Inr (charset, password_chars, r4) \<Rightarrow>
          let remaining_length = length_pg self - int (length password_chars) in
          (case append_choices (nat remaining_length) charset password_chars r4 of
             Inl e \<Rightarrow> Inl e
           | Inr (password_chars', r5) \<Rightarrow> Inr (shuffle password_chars' r5))))))"

definition zero_tape :: rng where
  "zero_tape = (\<lambda>i. 0)"






section \<open>Text\<close>

definition LF :: char where
  "LF = CHR 0x0A"

definition CR :: char where
  "CR = CHR 0x0D"

text \<open>
  \<open>str.isspace\<close>, \<open>str.isalpha\<close> and \<open>str.isalnum\<close> on the code points below 256.
  \<open>isalnum\<close> is true when one of \<open>isalpha\<close>, \<open>isdecimal\<close>, \<open>isdigit\<close>, \<open>isnumeric\<close> is.
\<close>

definition isspace :: "char \<Rightarrow> bool" where
  "isspace c =
     (let n = (of_char c :: nat)
      in (9 \<le> n \<and> n \<le> 13) \<or> (28 \<le> n \<and> n \<le> 32) \<or> n = 133 \<or> n = 160)"

definition isalpha :: "char \<Rightarrow> bool" where
  "isalpha c =
     (let n = (of_char c :: nat)
      in (65 \<le> n \<and> n \<le> 90) \<or> (97 \<le> n \<and> n \<le> 122) \<or> n = 170 \<or> n = 181 \<or> n = 186
         \<or> (192 \<le> n \<and> n \<le> 214) \<or> (216 \<le> n \<and> n \<le> 246) \<or> (248 \<le> n \<and> n \<le> 255))"

definition isalnum :: "char \<Rightarrow> bool" where
  "isalnum c =
     (let n = (of_char c :: nat)
      in isalpha c \<or> (48 \<le> n \<and> n \<le> 57) \<or> n = 178 \<or> n = 179 \<or> n = 185
         \<or> (188 \<le> n \<and> n \<le> 190))"

definition strip :: "string \<Rightarrow> string" where
  "strip s = rev (dropWhile isspace (rev (dropWhile isspace s)))"

text \<open>
  Reading a file in text mode with the default \<open>newline=None\<close>: \<open>'\r\n'\<close> and a lone
  \<open>'\r'\<close> arrive as \<open>'\n'\<close>. Iterating over the file, or \<open>readlines()\<close>, gives the lines
  with their \<open>'\n'\<close>; a last line without one is given as it is.
\<close>

fun universal_newlines :: "string \<Rightarrow> string" where
  "universal_newlines [] = []"
| "universal_newlines (c # cs) =
     (if c = CR then
        (case cs of
           [] \<Rightarrow> [LF]
         | d # ds \<Rightarrow> if d = LF then LF # universal_newlines ds else LF # universal_newlines cs)
      else c # universal_newlines cs)"

fun split_keepends :: "string \<Rightarrow> string \<Rightarrow> string list" where
  "split_keepends cur [] = (if cur = [] then [] else [cur])"
| "split_keepends cur (c # cs) =
     (if c = LF then (cur @ [LF]) # split_keepends [] cs else split_keepends (cur @ [c]) cs)"

definition readlines :: "string \<Rightarrow> string list" where
  "readlines text = split_keepends [] (universal_newlines text)"

text \<open>
  \<open>csv.writer(f).writerow(row)\<close> with the default dialect: a field holding a comma, a double
  quote, \<open>'\r'\<close> or \<open>'\n'\<close> is quoted and its double quotes are doubled; fields are joined by
  commas and the row ends with \<open>'\r\n'\<close>. (The rows written here have five fields.)
\<close>

definition csv_field :: "string \<Rightarrow> string" where
  "csv_field s =
     (if list_ex (\<lambda>c. c = CHR '','' \<or> c = CHR 0x22 \<or> c = CR \<or> c = LF) s
      then [CHR 0x22] @ concat (map (\<lambda>c. if c = CHR 0x22 then [c, c] else [c]) s) @ [CHR 0x22]
      else s)"

fun join_fields :: "string list \<Rightarrow> string" where
  "join_fields [] = []"
| "join_fields [s] = s"
| "join_fields (s # t # ts) = s @ '','' @ join_fields (t # ts)"

definition writerow :: "string list \<Rightarrow> string" where
  "writerow row = join_fields (map csv_field row) @ [CR, LF]"

text \<open>
  Paths are strings in \<open>pathlib\<close>'s normal form (no doubled or trailing slash, no \<open>.\<close>
  component): \<open>Path(a) / b\<close> joins with a slash, \<open>Path(p).parent\<close> drops the last component.
\<close>

definition path_join :: "string \<Rightarrow> string \<Rightarrow> string" where
  "path_join a b = a @ ''/'' @ b"

definition parent_dir :: "string \<Rightarrow> string" where
  "parent_dir p =
     (let d = rev (dropWhile (\<lambda>c. c \<noteq> CHR ''/'') (rev p))
      in if d = [] then ''.'' else if d = ''/'' then ''/'' else butlast d)"

section \<open>Configuration (settings.json)\<close>

text \<open>
  The recognised top-level keys and the sub-keys that the user manager reads. A key may be
  absent; a present key holds a value of the JSON type the code expects. The sections that the
  modelled functions never look into are of the unspecified type \<open>other_section\<close>.
\<close>

record ftp_section =
  key_ftp_root :: "string option"
  key_default_shell :: "string option"
  key_ftp_group :: "string option"
  key_allowed_users_file :: "string option"

record logging_section =
  key_enabled :: "bool option"
  key_credentials_file :: "string option"

typedecl other_section

record config =
  key_ftp_config :: "ftp_section option"
  key_tailscale_config :: "other_section option"
  key_password_policy :: "password_policy option"
  key_user_defaults :: "other_section option"
  key_logging :: "logging_section option"
  key_network_config :: "other_section option"

definition empty_ftp_section :: ftp_section where
  "empty_ftp_section =
     \<lparr>key_ftp_root = None, key_default_shell = None, key_ftp_group = None,
      key_allowed_users_file = None\<rparr>"

definition empty_logging_section :: logging_section where
  "empty_logging_section = \<lparr>key_enabled = None, key_credentials_file = None\<rparr>"

definition empty_config :: config where
  "empty_config =
     \<lparr>key_ftp_config = None, key_tailscale_config = None, key_password_policy = None,
      key_user_defaults = None, key_logging = None, key_network_config = None\<rparr>"






section \<open>Diagnostic command runner (ftp/ftp\_debug.py, tailscale/tailscale\_debug.py)\<close>






section \<open>The operating system as seen by the user manager\<close>

text \<open>
  The world holds the regular files whose content matters here (the allow-list and the
  credential log, keyed by path, each with its text and permission bits) and the trace of
  every command run and every system call made. The environment answers each of them:
  \<open>proc_env\<close> gives the outcome of a command, \<open>sys_env\<close> says whether a system call fails with
  \<open>OSError\<close>, \<open>passwd_env\<close> is the user database read by \<open>pwd.getpwnam\<close>; each is asked
  with the number of events that went before, so the answer to the same question may change
  over time. \<open>now\<close> is the formatted time of day, \<open>tape\<close> the entropy, \<open>new_file_mode\<close> the
  permission bits that a newly created file gets. A write either happens or its \<open>open\<close> fails.
\<close>

datatype sys_call =
    MkdirParents string
  | Mkdir string
  | Chown string nat nat
  | Chmod string nat
  | Touch string
  | OpenRead string
  | OpenAppend string
  | OpenWrite string
  | Getpwnam string

datatype event = Run "string list" "string option" | Sys sys_call

datatype proc_outcome = Exited int captured | SpawnError

record regular_file =
  content :: string
  mode :: nat

record world =
  files :: "string \<rightharpoonup> regular_file"
  trace :: "event list"
  proc_env :: "nat \<Rightarrow> string list \<Rightarrow> proc_outcome"
  sys_env :: "nat \<Rightarrow> sys_call \<Rightarrow> bool"
  passwd_env :: "nat \<Rightarrow> string \<Rightarrow> (nat \<times> nat) option"
  now :: string
  tape :: rng
  new_file_mode :: nat

type_synonym 'a io = "world \<Rightarrow> (exn + 'a) \<times> world"

definition return_io :: "'a \<Rightarrow> 'a io" where
  "return_io x w = (Inr x, w)"

definition raise_io :: "exn \<Rightarrow> 'a io" where
  "raise_io e w = (Inl e, w)"

definition bind_io :: "'a io \<Rightarrow> ('a \<Rightarrow> 'b io) \<Rightarrow> 'b io" where
  "bind_io m f w = (case m w of (Inl e, w') \<Rightarrow> (Inl e, w') | (Inr x, w') \<Rightarrow> f x w')"

text \<open>
  Starting a process and waiting for it: the return code and the captured standard error, or
  \<open>OSError\<close> when the program cannot be started. The second argument is what is sent to the
  standard input.
\<close>

definition run_process :: "string list \<Rightarrow> string option \<Rightarrow> (int \<times> captured) io" where
  "run_process argv input w =
     (let w' = w\<lparr>trace := trace w @ [Run argv input]\<rparr>
      in case proc_env w (length (trace w)) argv of
           SpawnError \<Rightarrow> (Inl OSError, w')
         | Exited returncode err \<Rightarrow> (Inr (returncode, err), w'))"

text \<open>\<open>subprocess.run(argv, check=True, capture_output=True)\<close>.\<close>

definition run_checked :: "string list \<Rightarrow> unit io" where
  "run_checked argv =
     bind_io (run_process argv None) (\<lambda>(returncode, err).
       if returncode \<noteq> 0 then raise_io (CalledProcessError returncode (Some err))
       else return_io ())"

definition sys :: "sys_call \<Rightarrow> unit io" where
  "sys c w =
     (let w' = w\<lparr>trace := trace w @ [Sys c]\<rparr>
      in if sys_env w (length (trace w)) c then (Inl OSError, w') else (Inr (), w'))"

definition touch :: "string \<Rightarrow> unit io" where
  "touch p =
     bind_io (sys (Touch p)) (\<lambda>_ w.
       (Inr (),
        if p \<in> dom (files w) then w
        else w\<lparr>files := (files w)(p \<mapsto> \<lparr>content = [], mode = new_file_mode w\<rparr>)\<rparr>))"

definition chmod :: "string \<Rightarrow> nat \<Rightarrow> unit io" where
  "chmod p m =
     bind_io (sys (Chmod p m)) (\<lambda>_ w.
       (Inr (),
        case files w p of
          None \<Rightarrow> w
        | Some f \<Rightarrow> w\<lparr>files := (files w)(p \<mapsto> f\<lparr>mode := m\<rparr>)\<rparr>))"

definition read_text :: "string \<Rightarrow> string io" where
  "read_text p =
     bind_io (sys (OpenRead p)) (\<lambda>_ w.
       case files w p of
         None \<Rightarrow> (Inl OSError, w)
       | Some f \<Rightarrow> (Inr (content f), w))"

definition append_text :: "string \<Rightarrow> string \<Rightarrow> unit io" where
  "append_text p s =
     bind_io (sys (OpenAppend p)) (\<lambda>_ w.
       (Inr (),
        w\<lparr>files := (files w)(p \<mapsto>
             (case files w p of
                None \<Rightarrow> \<lparr>content = s, mode = new_file_mode w\<rparr>
              | Some f \<Rightarrow> f\<lparr>content := content f @ s\<rparr>))\<rparr>))"


definition getpwnam :: "string \<Rightarrow> (nat \<times> nat) io" where
  "getpwnam name w =
     (let w' = w\<lparr>trace := trace w @ [Sys (Getpwnam name)]\<rparr>
      in case passwd_env w (length (trace w)) name of
           None \<Rightarrow> (Inl KeyError, w')
         | Some ids \<Rightarrow> (Inr ids, w'))"

section \<open>FTPUserManager (ftp/ftp\_users.py)\<close>

record FTPUserManager =
  config :: config
  ftp_config :: ftp_section
  password_policy :: password_policy
  logging_config :: logging_section
  password_generator :: PasswordGenerator


definition user_exists :: "string \<Rightarrow> bool io" where
  "user_exists username w =
     (case run_checked [''id'', username] w of
        (Inl (CalledProcessError returncode err), w') \<Rightarrow> (Inr False, w')
      | (Inl e, w') \<Rightarrow> (Inl e, w')
      | (Inr _, w') \<Rightarrow> (Inr True, w'))"

definition validate_username :: "string \<Rightarrow> bool \<times> string" where
  "validate_username username =
     (if username = [] then (False, ''Username cannot be empty'')
      else if length username < 3 then (False, ''Username must be at least 3 characters'')
      else if length username > 32 then (False, ''Username must be 32 characters or less'')
      else if \<not> isalpha (username ! 0) then (False, ''Username must start with a letter'')
      else if \<not> list_all (\<lambda>c. isalnum c \<or> c \<in> set ''-_'') username
        then (False, ''Username can only contain letters, numbers, hyphens, and underscores'')
      else if username \<in> set [''root'', ''admin'', ''administrator'', ''ftp'', ''test'']
        then (False, ''Username is reserved'')
      else (True, ''''))"

text \<open>\<open>_log_credentials\<close>. \<open>IOError\<close> is \<open>OSError\<close>; the permission bits are \<open>0o600 = 384\<close>.\<close>

definition log_credentials :: "FTPUserManager \<Rightarrow> string \<Rightarrow> string \<Rightarrow> unit io" where
  "log_credentials self username password w =
     (if \<not> get_default (key_enabled (logging_config self)) True then (Inr (), w)
      else
        let credentials_file =
              get_default (key_credentials_file (logging_config self)) ''/root/.ftp_credentials.csv''
        in case sys (MkdirParents (parent_dir credentials_file)) w of
             (Inl e, w1) \<Rightarrow> (Inl e, w1)
           | (Inr _, w1) \<Rightarrow>
               let file_exists = (credentials_file \<in> dom (files w1));
                   timestamp = now w1;
                   ftp_root = get_default (key_ftp_root (ftp_config self)) ''/srv/ftp'';
                   home_dir = ftp_root @ ''/'' @ username;
                   files_dir = ftp_root @ ''/'' @ username @ ''/files'';
                   header =
                     (if \<not> file_exists
                      then writerow [''Timestamp'', ''Username'', ''Password'',
                                     ''Home Directory'', ''Files Directory'']
                      else []);
                   row = writerow [timestamp, username, password, home_dir, files_dir]
               in case bind_io (append_text credentials_file (header @ row))
                         (\<lambda>_. chmod credentials_file 384) w1 of
                    (Inl e, w2) \<Rightarrow> if e = OSError then (Inr (), w2) else (Inl e, w2)
                  | (Inr _, w2) \<Rightarrow> (Inr (), w2))"

text \<open>
  Setting a password, as \<open>create_user\<close> and \<open>change_password\<close> both do it: \<open>chpasswd\<close> is
  started with \<open>Popen\<close>, is sent \<open>username:password\<close>, and a non-zero return code is raised as
  \<open>CalledProcessError\<close> (with no captured output).
\<close>

definition chpasswd :: "string \<Rightarrow> string \<Rightarrow> unit io" where
  "chpasswd username password =
     bind_io (run_process [''chpasswd''] (Some (username @ '':'' @ password))) (\<lambda>(returncode, err).
       if returncode \<noteq> 0 then raise_io (CalledProcessError returncode None)
       else return_io ())"

text \<open>The password argument when given, a generated one otherwise.\<close>

definition password_or_generate :: "FTPUserManager \<Rightarrow> string option \<Rightarrow> string io" where
  "password_or_generate self password w =
     (case password of
        Some p \<Rightarrow> (Inr p, w)
      | None \<Rightarrow>
          (case generate (password_generator self) (tape w) of
             Inl e \<Rightarrow> (Inl e, w)
           | Inr (p, r) \<Rightarrow> (Inr p, w\<lparr>tape := r\<rparr>)))"

text \<open>
  The \<open>try\<close> block of \<open>create_user\<close>, in the order of its comments: create the account, set
  the password, create the directory structure (\<open>0o755 = 493\<close>), add the name to the allowed
  users list (\<open>0o644 = 420\<close>), log the credentials.
\<close>

definition create_account :: "FTPUserManager \<Rightarrow> string \<Rightarrow> string \<Rightarrow> string \<Rightarrow> unit io" where
  "create_account self username password user_home =
     (let shell = get_default (key_default_shell (ftp_config self)) ''/bin/bash'';
          group = get_default (key_ftp_group (ftp_config self)) ''ftpusers''
      in bind_io (run_checked [''useradd'', ''-m'', ''-d'', user_home, ''-s'', shell,
                               ''-G'', group, username])
           (\<lambda>_. chpasswd username password))"

definition setup_directories :: "string \<Rightarrow> string \<Rightarrow> string \<Rightarrow> unit io" where
  "setup_directories username user_home user_files =
     bind_io (sys (MkdirParents user_home)) (\<lambda>_.
     bind_io (sys (Chown user_home 0 0)) (\<lambda>_.
     bind_io (chmod user_home 493) (\<lambda>_.
     bind_io (sys (Mkdir user_files)) (\<lambda>_.
     bind_io (getpwnam username) (\<lambda>(pw_uid, pw_gid).
     bind_io (sys (Chown user_files pw_uid pw_gid)) (\<lambda>_.
     chmod user_files 493))))))"

definition add_to_userlist :: "FTPUserManager \<Rightarrow> string \<Rightarrow> unit io" where
  "add_to_userlist self username =
     (let userlist_file =
            get_default (key_allowed_users_file (ftp_config self)) ''/etc/vsftpd.userlist''
      in bind_io (\<lambda>w. if userlist_file \<notin> dom (files w)
                       then bind_io (touch userlist_file) (\<lambda>_. chmod userlist_file 420) w
                       else (Inr (), w)) (\<lambda>_.
         bind_io (read_text userlist_file) (\<lambda>text.
           let existing_users = map strip (readlines text)
           in if username \<notin> set existing_users
              then append_text userlist_file (username @ [LF])
              else return_io ())))"

definition create_user_try ::
  "FTPUserManager \<Rightarrow> string \<Rightarrow> string \<Rightarrow> string \<Rightarrow> string \<Rightarrow> (bool \<times> string \<times> string) io" where
  "create_user_try self username password user_home user_files =
     bind_io (create_account self username password user_home) (\<lambda>_.
     bind_io (setup_directories username user_home user_files) (\<lambda>_.
     bind_io (add_to_userlist self username) (\<lambda>_.
     bind_io (log_credentials self username password) (\<lambda>_.
     return_io (True, username, password)))))"

text \<open>
  The cleanup of the first handler: everything it raises is swallowed, and the outcome of
  \<open>userdel\<close> is not looked at.
\<close>

definition cleanup :: "string \<Rightarrow> world \<Rightarrow> world" where
  "cleanup username w =
     (case user_exists username w of
        (Inr True, w') \<Rightarrow> snd (run_process [''userdel'', ''-r'', username] None w')
      | (_, w') \<Rightarrow> w')"

text \<open>
  \<open>create_user\<close>. The handler of \<open>CalledProcessError\<close> prints \<open>e.stderr.decode()\<close> when
  \<open>e.stderr\<close> is not empty; an exception raised inside a handler leaves the function. The
  second handler catches every other \<open>Exception\<close>, which \<open>SystemExit\<close> is not.
\<close>

definition create_user ::
  "FTPUserManager \<Rightarrow> string \<Rightarrow> string option \<Rightarrow> (bool \<times> string \<times> string) io" where
  "create_user self username password w =
     (case validate_username username of (valid, message) \<Rightarrow>
        if \<not> valid then (Inr (False, username, ''''), w)
        else
          (case user_exists username w of
             (Inl e, w1) \<Rightarrow> (Inl e, w1)
           | (Inr True, w1) \<Rightarrow> (Inr (False, username, ''''), w1)
           | (Inr False, w1) \<Rightarrow>
               (case password_or_generate self password w1 of
                  (Inl e, w2) \<Rightarrow> (Inl e, w2)
                | (Inr password', w2) \<Rightarrow>
                    let ftp_root = get_default (key_ftp_root (ftp_config self)) ''/srv/ftp'';
                        user_home = path_join ftp_root username;
                        user_files = path_join user_home ''files''
                    in (case create_user_try self username password' user_home user_files w2 of
                          (Inr result, w3) \<Rightarrow> (Inr result, w3)
                        | (Inl (CalledProcessError returncode err), w3) \<Rightarrow>
                            if err = Some NotUtf8 then (Inl UnicodeDecodeError, w3)
                            else (Inr (False, username, ''''), cleanup username w3)
                        | (Inl (SystemExit n), w3) \<Rightarrow> (Inl (SystemExit n), w3)
                        | (Inl e, w3) \<Rightarrow> (Inr (False, username, ''''), w3)))))"



section \<open>The words of the specification, and concrete inputs\<close>

text \<open>The validation rules for a username, as the specification words them.\<close>

definition username_rules :: "string \<Rightarrow> bool" where
  "username_rules u =
     (3 \<le> length u \<and> length u \<le> 32 \<and> isalpha (hd u)
      \<and> (\<forall>c \<in> set u. isalnum c \<or> c = CHR ''-'' \<or> c = CHR ''_'')
      \<and> u \<notin> {''root'', ''admin'', ''administrator'', ''ftp'', ''test''})"

text \<open>A section in which every absent key has been given its hardcoded default.\<close>

definition with_policy_defaults :: "password_policy \<Rightarrow> password_policy" where
  "with_policy_defaults p =
     \<lparr>key_length = Some (get_default (key_length p) 16),
      key_include_uppercase = Some (get_default (key_include_uppercase p) True),
      key_include_lowercase = Some (get_default (key_include_lowercase p) True),
      key_include_digits = Some (get_default (key_include_digits p) True),
      key_include_special = Some (get_default (key_include_special p) True),
      key_special_chars = Some (get_default (key_special_chars p) ''!@#$%^&*-_=+''),
      key_exclude_ambiguous = Some (get_default (key_exclude_ambiguous p) True),
      key_min_lowercase = Some (get_default (key_min_lowercase p) 2),
      key_min_uppercase = Some (get_default (key_min_uppercase p) 2),
      key_min_digits = Some (get_default (key_min_digits p) 2),
      key_min_special = Some (get_default (key_min_special p) 2)\<rparr>"




text \<open>The manager built from a configuration file that holds the empty object.\<close>

definition default_manager :: FTPUserManager where
  "default_manager =
     \<lparr>config = empty_config, ftp_config = empty_ftp_section, password_policy = empty_policy,
      logging_config = empty_logging_section,
      password_generator = PasswordGenerator_init empty_policy\<rparr>"

text \<open>
  Environments: in \<open>new_user_env\<close> the first command (the \<open>id\<close> probe) exits with 1 and every
  later command with 0; in \<open>known_user_env\<close> every command exits with 0. No system call
  fails, and the user database knows every name.
\<close>

definition new_user_env :: "nat \<Rightarrow> string list \<Rightarrow> proc_outcome" where
  "new_user_env n argv = (if n = 0 then Exited 1 (Utf8 []) else Exited 0 (Utf8 []))"


definition no_failure :: "nat \<Rightarrow> sys_call \<Rightarrow> bool" where
  "no_failure n c = False"

definition any_user :: "nat \<Rightarrow> string \<Rightarrow> (nat \<times> nat) option" where
  "any_user n name = Some (1001, 1001)"

definition start_world ::
  "(string \<rightharpoonup> regular_file) \<Rightarrow> (nat \<Rightarrow> string list \<Rightarrow> proc_outcome) \<Rightarrow> world" where
  "start_world fs env =
     \<lparr>files = fs, trace = [], proc_env = env, sys_env = no_failure, passwd_env = any_user,
      now = ''2024-05-01 12:00:00'', tape = zero_tape, new_file_mode = 420\<rparr>"

definition no_files :: "string \<rightharpoonup> regular_file" where
  "no_files = Map.empty"

section \<open>Frames\<close>

text \<open>
  What an action leaves alone: \<open>same_env\<close> says that the environment is the same and the trace
  has only grown; \<open>untouched\<close> says that, in addition, no file has changed; \<open>text_of\<close> is the
  text of a file. \<open>preserves R m\<close> says that the action \<open>m\<close> only makes \<open>R\<close>-steps.
\<close>

definition same_env :: "world \<Rightarrow> world \<Rightarrow> bool" where
  "same_env w w' =
     (proc_env w' = proc_env w \<and> sys_env w' = sys_env w \<and> passwd_env w' = passwd_env w
      \<and> now w' = now w \<and> new_file_mode w' = new_file_mode w
      \<and> (\<exists>evs. trace w' = trace w @ evs))"

definition untouched :: "world \<Rightarrow> world \<Rightarrow> bool" where
  "untouched w w' = (same_env w w' \<and> files w' = files w)"

definition text_of :: "world \<Rightarrow> string \<Rightarrow> string option" where
  "text_of w p = map_option content (files w p)"


definition same_text :: "string \<Rightarrow> world \<Rightarrow> world \<Rightarrow> bool" where
  "same_text p w w' = (same_env w w' \<and> text_of w' p = text_of w p)"

definition preserves :: "(world \<Rightarrow> world \<Rightarrow> bool) \<Rightarrow> 'a io \<Rightarrow> bool" where
  "preserves R m = (\<forall>w r w'. m w = (r, w') \<longrightarrow> R w w')"

text \<open>The configured paths and rows, as \<open>create_user\<close>, \<open>delete_user\<close> and \<open>_log_credentials\<close> compute them.\<close>

definition credentials_file :: "FTPUserManager \<Rightarrow> string" where
  "credentials_file self =
     get_default (key_credentials_file (logging_config self)) ''/root/.ftp_credentials.csv''"

definition userlist_file :: "FTPUserManager \<Rightarrow> string" where
  "userlist_file self =
     get_default (key_allowed_users_file (ftp_config self)) ''/etc/vsftpd.userlist''"




text \<open>\<open>grows p\<close>: the environment is the same and the text of \<open>p\<close>, if there was one, has only been added to at its end.\<close>

definition grows :: "string \<Rightarrow> world \<Rightarrow> world \<Rightarrow> bool" where
  "grows p w w' =
     (same_env w w' \<and> (\<forall>t. text_of w p = Some t \<longrightarrow> (\<exists>t'. text_of w' p = Some (t @ t'))))"



text \<open>
  The commands of \<open>create_user\<close> as events, and the events of its cleanup: the \<open>id\<close> probe,
  followed by \<open>userdel -r\<close> when the probe (the command with number \<open>k\<close>) exits with 0.
\<close>

definition useradd_argv :: "FTPUserManager \<Rightarrow> string \<Rightarrow> string list" where
  "useradd_argv self username =
     [''useradd'', ''-m'', ''-d'',
      path_join (get_default (key_ftp_root (ftp_config self)) ''/srv/ftp'') username,
      ''-s'', get_default (key_default_shell (ftp_config self)) ''/bin/bash'',
      ''-G'', get_default (key_ftp_group (ftp_config self)) ''ftpusers'', username]"

definition exits_zero :: "proc_outcome \<Rightarrow> bool" where
  "exits_zero out = (case out of Exited returncode err \<Rightarrow> returncode = 0 | SpawnError \<Rightarrow> False)"

definition cleanup_events :: "(nat \<Rightarrow> string list \<Rightarrow> proc_outcome) \<Rightarrow> nat \<Rightarrow> string \<Rightarrow> event list" where
  "cleanup_events env k username =
     Run [''id'', username] None #
     (if exits_zero (env k [''id'', username])
      then [Run [''userdel'', ''-r'', username] None] else [])"

text \<open>
  Environments in which the account does not exist at first (the probe exits with 1) and then
  \<open>useradd\<close>, the second command, exits with 9, or \<open>chpasswd\<close>, the third, exits with 1; every
  other command exits with 0.
\<close>

definition useradd_fails_env :: "nat \<Rightarrow> string list \<Rightarrow> proc_outcome" where
  "useradd_fails_env n argv =
     (if n = 0 then Exited 1 (Utf8 [])
      else if n = 1 then Exited 9 (Utf8 ''useradd: group does not exist'')
      else Exited 0 (Utf8 []))"

definition chpasswd_fails_env :: "nat \<Rightarrow> string list \<Rightarrow> proc_outcome" where
  "chpasswd_fails_env n argv =
     (if n = 0 then Exited 1 (Utf8 [])
      else if n = 2 then Exited 1 (Utf8 [])
      else Exited 0 (Utf8 []))"

text \<open>
  The shape of what \<open>readlines\<close> returns: every line but the last ends with its only
  \<open>'\n'\<close>, the last line either does so too or is a non-empty rest without one, and no line
  holds a \<open>'\r'\<close>.
\<close>

definition terminated :: "string \<Rightarrow> bool" where
  "terminated l = (\<exists>b. l = b @ [LF] \<and> LF \<notin> set b \<and> CR \<notin> set b)"

definition unterminated :: "string \<Rightarrow> bool" where
  "unterminated l = (l \<noteq> [] \<and> LF \<notin> set l \<and> CR \<notin> set l)"

fun text_lines :: "string list \<Rightarrow> bool" where
  "text_lines [] = True"
| "text_lines [l] = (terminated l \<or> unterminated l)"
| "text_lines (l # m # ls) = (terminated l \<and> text_lines (m # ls))"

text \<open>
  An allow-list whose last line has no newline, and the world after \<open>create_user\<close> for
  \<open>bob\<close> in it.
\<close>

definition open_userlist :: "string \<rightharpoonup> regular_file" where
  "open_userlist =
     [''/etc/vsftpd.userlist'' \<mapsto> \<lparr>content = ''alicebob'' @ [LF] @ ''alice'', mode = 420\<rparr>]"

text \<open>An allow-list with three names, and an account database in which \<open>bob\<close> exists.\<close>

definition three_userlist :: "string \<rightharpoonup> regular_file" where
  "three_userlist =
     [''/etc/vsftpd.userlist'' \<mapsto>
        \<lparr>content = ''alice'' @ [LF] @ ''bob'' @ [LF] @ ''carol'' @ [LF], mode = 420\<rparr>]"

text \<open>The lines of an allow-list that are not the line of \<open>username\<close>, in their order.\<close>

definition kept_lines :: "string \<Rightarrow> string list \<Rightarrow> string list" where
  "kept_lines username ls = filter (\<lambda>line. strip line \<noteq> username) ls"

section \<open>Properties of the password generator\<close>


lemma append_choices_Inl:
  "append_choices n pool acc r = Inl e \<longleftrightarrow> (0 < n \<and> pool = [] \<and> e = IndexError)"
proof (induction n arbitrary: acc r)
  case 0
  then show ?case by simp
next
  case (Suc n)
  show ?case
  proof (cases "pool = []")
    case True
    then show ?thesis by (auto simp: choice_def)
  next
    case False
    then show ?thesis using Suc.IH
      by (simp add: choice_def randbelow_def)
  qed
qed















section \<open>Configuration loading\<close>



section \<open>The diagnostic command runner\<close>



section \<open>Username validation\<close>

lemma validate_username_iff:
  "validate_username u = (True, '''') \<longleftrightarrow> username_rules u"
proof (cases u)
  case Nil
  then show ?thesis by (simp add: validate_username_def username_rules_def)
next
  case (Cons a as)
  then have "u ! 0 = hd u" by simp
  then show ?thesis
    by (auto simp: validate_username_def username_rules_def list_all_iff)
qed

lemma validate_username_fst:
  "fst (validate_username u) \<longleftrightarrow> validate_username u = (True, '''')"
  by (simp add: validate_username_def)

lemma create_user_invalid:
  assumes "\<not> username_rules u"
  shows "create_user self u password w = (Inr (False, u, []), w)"
proof -
  obtain v m where vm: "validate_username u = (v, m)"
    by (cases "validate_username u")
  have "\<not> fst (validate_username u)"
    using assms validate_username_iff validate_username_fst by blast
  with vm have "\<not> v" by simp
  with vm show ?thesis by (simp add: create_user_def)
qed

text \<open>
  C2. \<open>validate_username u\<close> returns \<open>(True, "")\<close> exactly when \<open>u\<close> has between 3 and 32
  characters, starts with a letter, consists of alphanumeric characters, hyphens and
  underscores, and is not reserved. On any other username \<open>create_user\<close> returns
  \<open>(False, u, "")\<close> and leaves the world as it was: no command is run and no file is touched;
  so a successful \<open>create_user\<close> was given a username that meets the rules.
\<close>

theorem username_validation:
  "(validate_username u = (True, []) \<longleftrightarrow> username_rules u)
   \<and> (\<not> username_rules u \<longrightarrow> create_user self u password w = (Inr (False, u, []), w))
   \<and> (fst (create_user self u password w) = Inr (True, u, pw) \<longrightarrow> username_rules u)"
proof (intro conjI impI)
  show "validate_username u = (True, []) \<longleftrightarrow> username_rules u"
    by (rule validate_username_iff)
next
  assume "\<not> username_rules u"
  then show "create_user self u password w = (Inr (False, u, []), w)"
    by (rule create_user_invalid)
next
  assume a: "fst (create_user self u password w) = Inr (True, u, pw)"
  show "username_rules u"
  proof (rule ccontr)
    assume "\<not> username_rules u"
    then have "create_user self u password w = (Inr (False, u, []), w)"
      by (rule create_user_invalid)
    with a show False by simp
  qed
qed

theorem username_validation_witness:
  "username_rules ''alice_01'' \<and> validate_username ''alice_01'' = (True, [])
   \<and> \<not> username_rules ''root''
   \<and> create_user default_manager ''root'' None (start_world no_files new_user_env)
       = (Inr (False, ''root'', []), start_world no_files new_user_env)"
proof -
  have a: "username_rules ''alice_01''" by code_simp
  have b: "\<not> username_rules ''root''" by code_simp
  show ?thesis
    using username_validation[of "''alice_01''" default_manager None "start_world no_files new_user_env"]
          username_validation[of "''root''" default_manager None "start_world no_files new_user_env"]
          a b
    by blast
qed

section \<open>Defaults for absent configuration keys\<close>

lemma get_default_Some [simp]: "get_default (Some v) d = v"
  by (simp add: get_default_def)

lemma get_default_None [simp]: "get_default None d = d"
  by (simp add: get_default_def)



lemma init_with_policy_defaults:
  "PasswordGenerator_init (with_policy_defaults p)
     = (PasswordGenerator_init p)\<lparr>policy := with_policy_defaults p\<rparr>"
  by (simp add: PasswordGenerator_init_def with_policy_defaults_def)












section \<open>Frames of the user manager's actions\<close>

lemma same_env_refl [simp]: "same_env w w"
  by (simp add: same_env_def)

lemma same_env_trans: "same_env w w1 \<Longrightarrow> same_env w1 w2 \<Longrightarrow> same_env w w2"
  by (auto simp: same_env_def)

lemma untouched_refl [simp]: "untouched w w"
  by (simp add: untouched_def)


lemma same_text_refl [simp]: "same_text p w w"
  by (simp add: same_text_def)



lemma bind_io_cases:
  assumes "bind_io m f w = (r, w')"
  obtains e where "m w = (Inl e, w')" "r = Inl e"
        | x w1 where "m w = (Inr x, w1)" "f x w1 = (r, w')"
  using assms by (auto simp: bind_io_def split: prod.splits sum.splits)

lemma preserves_bind:
  assumes tr: "transp R"
      and m: "preserves R m"
      and f: "\<And>x. preserves R (f x)"
  shows "preserves R (bind_io m f)"
  unfolding preserves_def
proof (intro allI impI)
  fix w r w'
  assume b: "bind_io m f w = (r, w')"
  show "R w w'"
  proof (rule bind_io_cases[OF b])
    fix e assume "m w = (Inl e, w')" "r = Inl e"
    then show ?thesis using m by (simp add: preserves_def)
  next
    fix x w1 assume a: "m w = (Inr x, w1)" "f x w1 = (r, w')"
    then have "R w w1" "R w1 w'" using m f[of x] by (auto simp: preserves_def)
    then show ?thesis using tr by (rule transpD[rotated])
  qed
qed


lemma preserves_raise: "(\<And>w. R w w) \<Longrightarrow> preserves R (raise_io e)"
  by (simp add: preserves_def raise_io_def)







lemma transp_same_env: "transp same_env"
  by (rule transpI) (rule same_env_trans)



lemmas bind_same_env = preserves_bind[OF transp_same_env]





lemma grows_refl [simp]: "grows p w w"
  by (simp add: grows_def)






lemma sys_result:
  "sys c w = (r, w') \<Longrightarrow> w' = w\<lparr>trace := trace w @ [Sys c]\<rparr>
     \<and> r = (if sys_env w (length (trace w)) c then Inl OSError else Inr ())"
  by (auto simp: sys_def Let_def split: if_splits)



lemma touch_grows: "preserves (grows p) (touch q)"
  by (auto simp: preserves_def touch_def bind_io_def sys_def Let_def grows_def same_env_def
        text_of_def split: if_splits option.splits)








section \<open>The credential log\<close>


lemma log_credentials_same_env: "preserves same_env (log_credentials self u p)"
  by (auto simp: preserves_def log_credentials_def bind_io_def sys_def append_text_def chmod_def
        Let_def same_env_def split: if_splits option.splits prod.splits sum.splits)

lemma case_OSError_preserves:
  assumes "preserves R m"
  shows "preserves R (\<lambda>w. case m w of
            (Inl e, w2) \<Rightarrow> if e = OSError then (Inr (), w2) else (Inl e, w2)
          | (Inr x, w2) \<Rightarrow> (Inr (), w2))"
  using assms by (auto simp: preserves_def split: prod.splits sum.splits if_splits)












section \<open>Failing commands in create\_user\<close>

lemma run_process_eval:
  "run_process argv inp w =
     ((case proc_env w (length (trace w)) argv of
         SpawnError \<Rightarrow> Inl OSError
       | Exited rc e \<Rightarrow> Inr (rc, e)),
      w\<lparr>trace := trace w @ [Run argv inp]\<rparr>)"
  by (simp add: run_process_def Let_def split: proc_outcome.splits)

lemma run_checked_eval:
  "run_checked argv w =
     ((case proc_env w (length (trace w)) argv of
         SpawnError \<Rightarrow> Inl OSError
       | Exited rc e \<Rightarrow> if rc \<noteq> 0 then Inl (CalledProcessError rc (Some e)) else Inr ()),
      w\<lparr>trace := trace w @ [Run argv None]\<rparr>)"
  by (simp add: run_checked_def bind_io_def run_process_eval raise_io_def return_io_def
        split: proc_outcome.splits)

lemma chpasswd_eval:
  "chpasswd u p w =
     ((case proc_env w (length (trace w)) [''chpasswd''] of
         SpawnError \<Rightarrow> Inl OSError
       | Exited rc e \<Rightarrow> if rc \<noteq> 0 then Inl (CalledProcessError rc None) else Inr ()),
      w\<lparr>trace := trace w @ [Run [''chpasswd''] (Some (u @ '':'' @ p))]\<rparr>)"
  by (simp add: chpasswd_def bind_io_def run_process_eval raise_io_def return_io_def
        split: proc_outcome.splits)

lemma user_exists_eval:
  "user_exists u w =
     ((case proc_env w (length (trace w)) [''id'', u] of
         SpawnError \<Rightarrow> Inl OSError
       | Exited rc e \<Rightarrow> Inr (rc = 0)),
      w\<lparr>trace := trace w @ [Run [''id'', u] None]\<rparr>)"
  by (simp add: user_exists_def run_checked_eval split: proc_outcome.splits)

lemma cleanup_eval:
  "cleanup u w = w\<lparr>trace := trace w @ cleanup_events (proc_env w) (length (trace w)) u\<rparr>"
  by (simp add: cleanup_def user_exists_eval run_process_eval cleanup_events_def exits_zero_def
        split: proc_outcome.splits)

lemma password_or_generate_result:
  assumes "fst (password_or_generate self pwo w) = Inr p" "tape w1 = tape w"
  shows "\<exists>w2. password_or_generate self pwo w1 = (Inr p, w2) \<and> trace w2 = trace w1
           \<and> files w2 = files w1 \<and> proc_env w2 = proc_env w1"
  using assms
  by (auto simp: password_or_generate_def split: option.splits sum.splits)

lemma create_user_enters_try:
  assumes rules: "username_rules u"
      and probe: "proc_env w (length (trace w)) [''id'', u] = Exited rc0 e0" "rc0 \<noteq> 0"
      and pw: "fst (password_or_generate self pwo w) = Inr p"
  shows "\<exists>w2. trace w2 = trace w @ [Run [''id'', u] None] \<and> files w2 = files w
           \<and> proc_env w2 = proc_env w
           \<and> create_user self u pwo w =
               (case create_user_try self u p
                       (path_join (get_default (key_ftp_root (ftp_config self)) ''/srv/ftp'') u)
                       (path_join (path_join (get_default (key_ftp_root (ftp_config self))
                                     ''/srv/ftp'') u) ''files'') w2 of
                  (Inr result, w3) \<Rightarrow> (Inr result, w3)
                | (Inl (CalledProcessError returncode err), w3) \<Rightarrow>
                    if err = Some NotUtf8 then (Inl UnicodeDecodeError, w3)
                    else (Inr (False, u, []), cleanup u w3)
                | (Inl (SystemExit n), w3) \<Rightarrow> (Inl (SystemExit n), w3)
                | (Inl e, w3) \<Rightarrow> (Inr (False, u, []), w3))"
proof -
  let ?w1 = "w\<lparr>trace := trace w @ [Run [''id'', u] None]\<rparr>"
  have v: "validate_username u = (True, [])"
    using rules validate_username_iff by blast
  have e: "user_exists u w = (Inr False, ?w1)"
    using probe by (simp add: user_exists_eval)
  from password_or_generate_result[OF pw, of ?w1] obtain w2 where
    g: "password_or_generate self pwo ?w1 = (Inr p, w2)"
    and t: "trace w2 = trace ?w1" "files w2 = files ?w1" "proc_env w2 = proc_env ?w1"
    by auto
  show ?thesis
    apply (rule exI[of _ w2])
    using t by (simp add: create_user_def v e g Let_def)
qed

lemma create_account_useradd_fails:
  assumes "proc_env w2 (length (trace w2)) (useradd_argv self u) = Exited rc e" "rc \<noteq> 0"
  shows "create_user_try self u p
           (path_join (get_default (key_ftp_root (ftp_config self)) ''/srv/ftp'') u) fs w2
         = (Inl (CalledProcessError rc (Some e)),
            w2\<lparr>trace := trace w2 @ [Run (useradd_argv self u) None]\<rparr>)"
  using assms
  by (simp add: create_user_try_def create_account_def bind_io_def run_checked_eval
        useradd_argv_def Let_def)

lemma create_account_chpasswd_fails:
  assumes "proc_env w2 (length (trace w2)) (useradd_argv self u) = Exited 0 e1"
      and "proc_env w2 (Suc (length (trace w2))) [''chpasswd''] = Exited rc e" "rc \<noteq> 0"
  shows "create_user_try self u p
           (path_join (get_default (key_ftp_root (ftp_config self)) ''/srv/ftp'') u) fs w2
         = (Inl (CalledProcessError rc None),
            w2\<lparr>trace := trace w2 @ [Run (useradd_argv self u) None,
                                      Run [''chpasswd''] (Some (u @ '':'' @ p))]\<rparr>)"
  using assms
  by (simp add: create_user_try_def create_account_def bind_io_def run_checked_eval
        chpasswd_eval useradd_argv_def Let_def)

text \<open>
  C6 (as amended). Let the username be valid, the \<open>id\<close> probe exit with a non-zero code (the
  account does not exist, so creation proceeds) and a password be at hand. If \<open>useradd\<close> exits
  with a non-zero code and its captured standard error decodes, or \<open>useradd\<close> exits with 0 and
  \<open>chpasswd\<close> exits with a non-zero code, then \<open>create_user\<close> returns \<open>(False, username, "")\<close>;
  the commands run are the probe, \<open>useradd\<close> (and \<open>chpasswd\<close>), each once, then the cleanup:
  one more probe and, only if that probe exits with 0, a single \<open>userdel -r\<close>. No system call
  is made and no file is changed: no directory is set up, the allow-list is not touched and no
  credentials are logged.
\<close>

theorem create_user_command_failure:
  assumes rules: "username_rules u"
      and probe: "proc_env w (length (trace w)) [''id'', u] = Exited rc0 e0" "rc0 \<noteq> 0"
      and pw: "fst (password_or_generate self pwo w) = Inr p"
  shows "(proc_env w (length (trace w) + 1) (useradd_argv self u) = Exited rc e
            \<and> rc \<noteq> 0 \<and> e \<noteq> NotUtf8
          \<longrightarrow> fst (create_user self u pwo w) = Inr (False, u, [])
              \<and> files (snd (create_user self u pwo w)) = files w
              \<and> trace (snd (create_user self u pwo w))
                  = trace w @ [Run [''id'', u] None, Run (useradd_argv self u) None]
                      @ cleanup_events (proc_env w) (length (trace w) + 2) u)
       \<and> (proc_env w (length (trace w) + 1) (useradd_argv self u) = Exited 0 e1
            \<and> proc_env w (length (trace w) + 2) [''chpasswd''] = Exited rc e \<and> rc \<noteq> 0
          \<longrightarrow> fst (create_user self u pwo w) = Inr (False, u, [])
              \<and> files (snd (create_user self u pwo w)) = files w
              \<and> trace (snd (create_user self u pwo w))
                  = trace w @ [Run [''id'', u] None, Run (useradd_argv self u) None,
                               Run [''chpasswd''] (Some (u @ '':'' @ p))]
                      @ cleanup_events (proc_env w) (length (trace w) + 3) u)"
proof -
  from create_user_enters_try[OF rules probe pw] obtain w2 where
    t: "trace w2 = trace w @ [Run [''id'', u] None]" "files w2 = files w"
       "proc_env w2 = proc_env w"
    and c: "create_user self u pwo w =
               (case create_user_try self u p
                       (path_join (get_default (key_ftp_root (ftp_config self)) ''/srv/ftp'') u)
                       (path_join (path_join (get_default (key_ftp_root (ftp_config self))
                                     ''/srv/ftp'') u) ''files'') w2 of
                  (Inr result, w3) \<Rightarrow> (Inr result, w3)
                | (Inl (CalledProcessError returncode err), w3) \<Rightarrow>
                    if err = Some NotUtf8 then (Inl UnicodeDecodeError, w3)
                    else (Inr (False, u, []), cleanup u w3)
                | (Inl (SystemExit n), w3) \<Rightarrow> (Inl (SystemExit n), w3)
                | (Inl e, w3) \<Rightarrow> (Inr (False, u, []), w3))"
    by blast
  have len: "length (trace w2) = length (trace w) + 1" using t by simp
  show ?thesis
  proof (intro conjI impI)
    assume a: "proc_env w (length (trace w) + 1) (useradd_argv self u) = Exited rc e
            \<and> rc \<noteq> 0 \<and> e \<noteq> NotUtf8"
    then have "proc_env w2 (length (trace w2)) (useradd_argv self u) = Exited rc e" "rc \<noteq> 0"
      using t len by simp_all
    from create_account_useradd_fails[OF this]
    have r: "create_user self u pwo w =
               (Inr (False, u, []),
                cleanup u (w2\<lparr>trace := trace w2 @ [Run (useradd_argv self u) None]\<rparr>))"
      using a by (simp add: c)
    show "fst (create_user self u pwo w) = Inr (False, u, [])"
      by (simp add: r)
    show "files (snd (create_user self u pwo w)) = files w"
      by (simp add: r cleanup_eval t)
    show "trace (snd (create_user self u pwo w))
            = trace w @ [Run [''id'', u] None, Run (useradd_argv self u) None]
                @ cleanup_events (proc_env w) (length (trace w) + 2) u"
      by (simp add: r cleanup_eval t)
  next
    assume a: "proc_env w (length (trace w) + 1) (useradd_argv self u) = Exited 0 e1
            \<and> proc_env w (length (trace w) + 2) [''chpasswd''] = Exited rc e \<and> rc \<noteq> 0"
    then have "proc_env w2 (length (trace w2)) (useradd_argv self u) = Exited 0 e1"
      "proc_env w2 (Suc (length (trace w2))) [''chpasswd''] = Exited rc e" "rc \<noteq> 0"
      using t len by simp_all
    from create_account_chpasswd_fails[OF this]
    have r: "create_user self u pwo w =
               (Inr (False, u, []),
                cleanup u (w2\<lparr>trace := trace w2 @ [Run (useradd_argv self u) None,
                                      Run [''chpasswd''] (Some (u @ '':'' @ p))]\<rparr>))"
      by (simp add: c)
    show "fst (create_user self u pwo w) = Inr (False, u, [])"
      by (simp add: r)
    show "files (snd (create_user self u pwo w)) = files w"
      by (simp add: r cleanup_eval t)
    show "trace (snd (create_user self u pwo w))
            = trace w @ [Run [''id'', u] None, Run (useradd_argv self u) None,
                               Run [''chpasswd''] (Some (u @ '':'' @ p))]
                @ cleanup_events (proc_env w) (length (trace w) + 3) u"
      by (simp add: r cleanup_eval t numeral_3_eq_3)
  qed
qed

theorem create_user_command_failure_witness:
  "username_rules ''alice''
   \<and> fst (create_user default_manager ''alice'' (Some ''s3cret'')
            (start_world no_files useradd_fails_env)) = Inr (False, ''alice'', [])
   \<and> trace (snd (create_user default_manager ''alice'' (Some ''s3cret'')
                   (start_world no_files useradd_fails_env)))
       = [Run [''id'', ''alice''] None, Run (useradd_argv default_manager ''alice'') None,
          Run [''id'', ''alice''] None, Run [''userdel'', ''-r'', ''alice''] None]
   \<and> fst (create_user default_manager ''alice'' (Some ''s3cret'')
            (start_world no_files chpasswd_fails_env)) = Inr (False, ''alice'', [])
   \<and> trace (snd (create_user default_manager ''alice'' (Some ''s3cret'')
                   (start_world no_files chpasswd_fails_env)))
       = [Run [''id'', ''alice''] None, Run (useradd_argv default_manager ''alice'') None,
          Run [''chpasswd''] (Some ''alice:s3cret''),
          Run [''id'', ''alice''] None, Run [''userdel'', ''-r'', ''alice''] None]"
proof -
  let ?a = "start_world no_files useradd_fails_env"
  let ?b = "start_world no_files chpasswd_fails_env"
  have r: "username_rules ''alice''" by code_simp
  have n: "(1::int) \<noteq> 0" by simp
  have ta: "trace ?a = []" "proc_env ?a = useradd_fails_env"
    and tb: "trace ?b = []" "proc_env ?b = chpasswd_fails_env"
    by (simp_all add: start_world_def)
  have pa: "proc_env ?a (length (trace ?a)) [''id'', ''alice''] = Exited 1 (Utf8 [])"
    and pb: "proc_env ?b (length (trace ?b)) [''id'', ''alice''] = Exited 1 (Utf8 [])"
    by (simp_all add: ta tb useradd_fails_env_def chpasswd_fails_env_def)
  have ga: "fst (password_or_generate default_manager (Some ''s3cret'') ?a) = Inr ''s3cret''"
    and gb: "fst (password_or_generate default_manager (Some ''s3cret'') ?b) = Inr ''s3cret''"
    by (simp_all add: password_or_generate_def)
  have fa: "proc_env ?a (length (trace ?a) + 1) (useradd_argv default_manager ''alice'')
              = Exited 9 (Utf8 ''useradd: group does not exist'')"
    by (simp add: ta useradd_fails_env_def)
  have fb: "proc_env ?b (length (trace ?b) + 1) (useradd_argv default_manager ''alice'')
              = Exited 0 (Utf8 [])"
           "proc_env ?b (length (trace ?b) + 2) [''chpasswd''] = Exited 1 (Utf8 [])"
    by (simp_all add: tb chpasswd_fails_env_def)
  have ca: "cleanup_events useradd_fails_env (Suc (Suc 0)) ''alice''
              = [Run [''id'', ''alice''] None, Run [''userdel'', ''-r'', ''alice''] None]"
    by (simp add: cleanup_events_def exits_zero_def useradd_fails_env_def)
  have cb: "cleanup_events chpasswd_fails_env 3 ''alice''
              = [Run [''id'', ''alice''] None, Run [''userdel'', ''-r'', ''alice''] None]"
    by (simp add: cleanup_events_def exits_zero_def chpasswd_fails_env_def)
  have A: "fst (create_user default_manager ''alice'' (Some ''s3cret'') ?a)
             = Inr (False, ''alice'', [])
         \<and> trace (snd (create_user default_manager ''alice'' (Some ''s3cret'') ?a))
             = trace ?a @ [Run [''id'', ''alice''] None,
                           Run (useradd_argv default_manager ''alice'') None]
                 @ cleanup_events (proc_env ?a) (length (trace ?a) + 2) ''alice''"
    using create_user_command_failure[OF r pa n ga,
            of 9 "Utf8 ''useradd: group does not exist''"] fa
    by simp
  have B: "fst (create_user default_manager ''alice'' (Some ''s3cret'') ?b)
             = Inr (False, ''alice'', [])
         \<and> trace (snd (create_user default_manager ''alice'' (Some ''s3cret'') ?b))
             = trace ?b @ [Run [''id'', ''alice''] None,
                           Run (useradd_argv default_manager ''alice'') None,
                           Run [''chpasswd''] (Some (''alice'' @ '':'' @ ''s3cret''))]
                 @ cleanup_events (proc_env ?b) (length (trace ?b) + 3) ''alice''"
    using create_user_command_failure[OF r pb n gb, of 1 "Utf8 []" "Utf8 []"] fb
    by simp
  show ?thesis
    using r A B by (simp add: ca cb ta tb)
qed

text \<open>
  C6 as stated fails: the \<open>id\<close> probe is an external command invoked inside \<open>create_user\<close>,
  and when it exits with a non-zero code (there is no such account yet) \<open>create_user\<close> goes
  on and, here, succeeds.
\<close>

theorem create_user_command_failure_counterexample:
  "proc_env (start_world no_files new_user_env)
     (length (trace (start_world no_files new_user_env))) [''id'', ''alice'']
     = Exited 1 (Utf8 [])
   \<and> fst (create_user default_manager ''alice'' (Some ''s3cret'')
            (start_world no_files new_user_env)) = Inr (True, ''alice'', ''s3cret'')"
  by code_simp

end
